theory Spec2Isabelle
  imports Complex_Main "HOL-Library.Word"
begin

unbundle bit_operations_syntax

section \<open>The relational store\<close>

text \<open>
  The services talk to a relational store through a generated client. The store is
  modelled as a record of tables. A table that is only read and written by primary key
  (\<open>InventoryItem\<close>) is a map from the key to the row; a table that is filtered
  (\<open>Shift\<close>, \<open>MaintenanceLog\<close>) or only appended to (\<open>InventoryLog\<close>,
  \<open>SalesOrder\<close>) is the list of its rows. Instants (\<open>datetime\<close>) are integers on
  a linear time axis; Python's \<open>int\<close> is \<open>int\<close>. The schema of the store is not among
  the sources: a row has the columns the services read and write, \<open>id_key\<close> is the
  column \<open>id\<close>, and of the table \<open>Equipment\<close> only the keys are kept. A query or a
  write is taken to reach the store; what the client does when a row is missing is
  written out where a service depends on it.
\<close>

datatype ItemType = MATERIAL | PRODUCT | RESOURCE

record InventoryItem_row =
  name :: string
  quantity :: int
  itemType :: ItemType

record InventoryLog_row =
  changeAmount :: int
  timestamp :: int
  inventoryItemId :: string

record SalesOrder_row =
  id_key :: string
  customerId :: string
  status :: string

record Shift_row =
  id_key :: string
  startTime :: int
  endTime :: int
  employeeId :: string
  Equipment :: "string list"

record MaintenanceLog_row =
  id_key :: string
  startTime :: int
  endTime :: int
  equipmentId :: string
  completionDate :: "int option"

record store =
  InventoryItem :: "string \<rightharpoonup> InventoryItem_row"
  InventoryLog :: "InventoryLog_row list"
  SalesOrder :: "SalesOrder_row list"
  Shift :: "Shift_row list"
  MaintenanceLog :: "MaintenanceLog_row list"
  Equipment :: "string list"

text \<open>A Python exception, as a value: its class and its message.\<close>

datatype error = ValueError string | AttributeError string | ValidationError string

section \<open>createOrder\<close>

record OrderItem =
  inventoryItemId :: string
  quantity :: int

record CreateOrderResponse =
  orderId :: string

text \<open>
  The first loop of \<open>createOrder\<close>: every line item is looked up in the store as it
  was on entry; the first item that is missing or short raises \<open>ValueError\<close>. Nothing
  is written.
\<close>

fun validate_items :: "store \<Rightarrow> OrderItem list \<Rightarrow> error + unit" where
  "validate_items db [] = Inr ()"
| "validate_items db (item # items) =
     (case InventoryItem db (OrderItem.inventoryItemId item) of
        None \<Rightarrow>
          Inl (ValueError (''Not enough stock for item ID '' @ OrderItem.inventoryItemId item))
      | Some inventory_item \<Rightarrow>
          if InventoryItem_row.quantity inventory_item < OrderItem.quantity item
          then Inl (ValueError (''Not enough stock for item ID '' @ OrderItem.inventoryItemId item))
          else validate_items db items)"

text \<open>
  \<open>InventoryItem.prisma().update(where={"id": i}, data={"quantity": {"decrement": n}})\<close>:
  the row with that key gets \<open>quantity - n\<close>; a key that is not in the table changes
  nothing (the client returns \<open>None\<close>, which \<open>createOrder\<close> does not read).
\<close>

definition update_decrement :: "store \<Rightarrow> string \<Rightarrow> int \<Rightarrow> store" where
  "update_decrement db i n =
     (case InventoryItem db i of
        None \<Rightarrow> db
      | Some row \<Rightarrow>
          db\<lparr>InventoryItem := (InventoryItem db)
                (i \<mapsto> row\<lparr>InventoryItem_row.quantity := InventoryItem_row.quantity row - n\<rparr>)\<rparr>)"

text \<open>The second loop of \<open>createOrder\<close>: one decrement per line item, in input order.\<close>

fun decrement_items :: "store \<Rightarrow> OrderItem list \<Rightarrow> store" where
  "decrement_items db [] = db"
| "decrement_items db (item # items) =
     decrement_items
       (update_decrement db (OrderItem.inventoryItemId item) (OrderItem.quantity item)) items"

text \<open>
  \<open>createOrder\<close>. The store generates the key of the new \<open>SalesOrder\<close> row; it is
  the parameter \<open>new_id\<close>. The result is the exception raised or the response, together
  with the store after the call. Requests are taken one at a time: what two concurrent
  calls can do between the two loops is outside this model.
\<close>

definition createOrder ::
  "string \<Rightarrow> store \<Rightarrow> string \<Rightarrow> OrderItem list \<Rightarrow> (error + CreateOrderResponse) \<times> store" where
  "createOrder new_id db customer_id items =
     (case validate_items db items of
        Inl e \<Rightarrow> (Inl e, db)
      | Inr _ \<Rightarrow>
          let db1 = decrement_items db items;
              sales_order = \<lparr>SalesOrder_row.id_key = new_id, customerId = customer_id,
                             status = ''PENDING''\<rparr>;
              db2 = db1\<lparr>SalesOrder := SalesOrder db1 @ [sales_order]\<rparr>
          in (Inr \<lparr>orderId = SalesOrder_row.id_key sales_order\<rparr>, db2))"

text \<open>
  The words of the specification: a line item is insufficient when its inventory item is
  missing or holds less than the requested amount.
\<close>

definition insufficient :: "store \<Rightarrow> OrderItem \<Rightarrow> bool" where
  "insufficient db item =
     (case InventoryItem db (OrderItem.inventoryItemId item) of
        None \<Rightarrow> True
      | Some row \<Rightarrow> InventoryItem_row.quantity row < OrderItem.quantity item)"

section \<open>The HTTP handler of createOrder\<close>

text \<open>
  \<open>api_post_createOrder\<close> (server.py) calls the service inside \<open>try\<close>; any exception
  becomes a \<open>Response\<close> with \<open>status_code=500\<close> whose content is the dictionary
  \<open>{"error": str(e)}\<close>. The handler returns the service's payload or that response.
\<close>

record Response =
  content :: "(string \<times> string) list"
  status_code :: nat
  media_type :: string



section \<open>useSparePart\<close>

record PartUsage =
  partId :: string
  quantityUsed :: int

record InventoryState =
  partId :: string
  remainingQuantity :: int

record MaintenancePartsLogResponse =
  success :: bool
  updatedRecord :: MaintenanceLog_row
  remainingInventory :: "InventoryState list"

text \<open>
  The response class declares \<open>updatedRecord: prisma.models.MaintenanceLog\<close>, a required
  field that is not optional: the validating constructor raises when it is given
  \<open>None\<close>.
\<close>

definition MaintenancePartsLogResponse_init ::
  "bool \<Rightarrow> MaintenanceLog_row option \<Rightarrow> InventoryState list \<Rightarrow>
   error + MaintenancePartsLogResponse" where
  "MaintenancePartsLogResponse_init ok found remaining =
     (case found of
        None \<Rightarrow> Inl (ValidationError ''updatedRecord: none is not an allowed value'')
      | Some r \<Rightarrow>
          Inr \<lparr>success = ok, updatedRecord = r, remainingInventory = remaining\<rparr>)"

definition find_maintenance_record :: "store \<Rightarrow> string \<Rightarrow> MaintenanceLog_row option" where
  "find_maintenance_record db record_id =
     find (\<lambda>r. MaintenanceLog_row.id_key r = record_id) (MaintenanceLog db)"

text \<open>
  The loop of \<open>useSparePart\<close>, with its two accumulators \<open>remaining_inventory\<close> and
  \<open>all_success\<close>. Each part is looked up in the store as the parts before it left it.
  \<open>datetime.now()\<close> is read once per log row written: \<open>now k\<close> is the clock at the
  \<open>k\<close>-th reading of the call, and the readings so far are as many as the entries of
  \<open>remaining_inventory\<close>.
\<close>

fun use_parts ::
  "(nat \<Rightarrow> int) \<Rightarrow> PartUsage list \<Rightarrow> store \<Rightarrow> InventoryState list \<Rightarrow> bool \<Rightarrow>
   store \<times> InventoryState list \<times> bool" where
  "use_parts now [] db remaining_inventory all_success =
     (db, remaining_inventory, all_success)"
| "use_parts now (part # parts) db remaining_inventory all_success =
     (case InventoryItem db (PartUsage.partId part) of
        None \<Rightarrow> use_parts now parts db remaining_inventory False
      | Some inventory_item \<Rightarrow>
          if InventoryItem_row.quantity inventory_item \<ge> quantityUsed part then
            let new_quantity = InventoryItem_row.quantity inventory_item - quantityUsed part;
                db1 = db\<lparr>InventoryItem := (InventoryItem db)
                        (PartUsage.partId part \<mapsto>
                           inventory_item\<lparr>InventoryItem_row.quantity := new_quantity\<rparr>)\<rparr>;
                remaining1 = remaining_inventory @
                  [\<lparr>InventoryState.partId = PartUsage.partId part,
                    remainingQuantity = new_quantity\<rparr>];
                db2 = db1\<lparr>InventoryLog := InventoryLog db1 @
                  [\<lparr>changeAmount = - quantityUsed part,
                    timestamp = now (length remaining_inventory),
                    inventoryItemId = PartUsage.partId part\<rparr>]\<rparr>
            in use_parts now parts db2 remaining1 all_success
          else use_parts now parts db remaining_inventory False)"

definition useSparePart ::
  "(nat \<Rightarrow> int) \<Rightarrow> store \<Rightarrow> string \<Rightarrow> PartUsage list \<Rightarrow>
   (error + MaintenancePartsLogResponse) \<times> store" where
  "useSparePart now db record_id parts =
     (case find_maintenance_record db record_id of
        None \<Rightarrow> (MaintenancePartsLogResponse_init False None [], db)
      | Some maintenance_record \<Rightarrow>
          (case use_parts now parts db [] True of
             (db', remaining_inventory, all_success) \<Rightarrow>
               (MaintenancePartsLogResponse_init all_success
                  (find_maintenance_record db' record_id) remaining_inventory, db')))"

section \<open>createSchedule\<close>

record ShiftDetail =
  start_time :: int
  end_time :: int
  employee_id :: string

record EquipmentUsage =
  equipment_id :: string
  start_time :: int
  end_time :: int

record ScheduleCreationResponse =
  schedule_id :: string
  shifts :: "ShiftDetail list"
  used_equipment :: "EquipmentUsage list"
  creation_status :: string

text \<open>The two \<open>find_many\<close> queries, as filters over the tables.\<close>

definition overlap_shifts :: "store \<Rightarrow> ShiftDetail \<Rightarrow> Shift_row list" where
  "overlap_shifts db shift =
     filter (\<lambda>r. Shift_row.startTime r < ShiftDetail.end_time shift
               \<and> Shift_row.endTime r > ShiftDetail.start_time shift
               \<and> employeeId r = employee_id shift) (Shift db)"

definition overlap_equipment :: "store \<Rightarrow> EquipmentUsage \<Rightarrow> MaintenanceLog_row list" where
  "overlap_equipment db equipment =
     filter (\<lambda>r. MaintenanceLog_row.startTime r < EquipmentUsage.end_time equipment
               \<and> MaintenanceLog_row.endTime r > EquipmentUsage.start_time equipment
               \<and> equipmentId r = equipment_id equipment
               \<and> completionDate r = None) (MaintenanceLog db)"

text \<open>
  The order in which the store is queried is part of what \<open>createSchedule\<close> does, so each
  loop also returns the queries it has sent, oldest first.
\<close>

datatype query = Shift_find_many ShiftDetail | MaintenanceLog_find_many EquipmentUsage

fun shift_loop :: "store \<Rightarrow> ShiftDetail list \<Rightarrow> ScheduleCreationResponse option \<times> query list" where
  "shift_loop db [] = (None, [])"
| "shift_loop db (shift # rest) =
     (if overlap_shifts db shift \<noteq> [] then
        (Some \<lparr>schedule_id = '''', shifts = [], used_equipment = [],
               creation_status = ''Failed due to shift conflict''\<rparr>,
         [Shift_find_many shift])
      else
        (case shift_loop db rest of (r, qs) \<Rightarrow> (r, Shift_find_many shift # qs)))"

fun equipment_loop ::
  "store \<Rightarrow> EquipmentUsage list \<Rightarrow> ScheduleCreationResponse option \<times> query list" where
  "equipment_loop db [] = (None, [])"
| "equipment_loop db (equipment # rest) =
     (if overlap_equipment db equipment \<noteq> [] then
        (Some \<lparr>schedule_id = '''', shifts = [], used_equipment = [],
               creation_status = ''Failed due to equipment maintenance conflict''\<rparr>,
         [MaintenanceLog_find_many equipment])
      else
        (case equipment_loop db rest of
           (r, qs) \<Rightarrow> (r, MaintenanceLog_find_many equipment # qs)))"

text \<open>
  \<open>str(uuid.uuid4())\<close>. \<open>uuid4\<close> draws sixteen random bytes, the parameter, reads
  them as an integer and stamps the variant and the version on it with Python's integer
  bit operations; \<open>str\<close> prints the integer with \<open>'%032x'\<close>, 32 lower-case hexadecimal
  digits with leading zeros, in groups of 8, 4, 4, 4 and 12.
\<close>

definition uuid4 :: "128 word \<Rightarrow> int" where
  "uuid4 random =
     (let i0 = uint random;
          i1 = i0 AND NOT (push_bit 48 0xc000);
          i2 = i1 OR push_bit 48 0x8000;
          i3 = i2 AND NOT (push_bit 64 0xf000)
      in i3 OR push_bit 76 4)"

definition hexdigit :: "nat \<Rightarrow> char" where
  "hexdigit d = ''0123456789abcdef'' ! d"

fun hex_fixed :: "nat \<Rightarrow> nat \<Rightarrow> string" where
  "hex_fixed 0 k = []"
| "hex_fixed (Suc n) k = hex_fixed n (k div 16) @ [hexdigit (k mod 16)]"

definition uuid_str :: "int \<Rightarrow> string" where
  "uuid_str u =
     (let hex = hex_fixed 32 (nat u)
      in take 8 hex @ ''-'' @ take 4 (drop 8 hex) @ ''-'' @ take 4 (drop 12 hex) @ ''-''
         @ take 4 (drop 16 hex) @ ''-'' @ drop 20 hex)"

text \<open>
  \<open>createSchedule\<close> returns its response; the model adds the store after the call and the
  queries sent. \<open>random\<close> is the draw \<open>uuid4\<close> makes on the success path.
\<close>

definition createSchedule ::
  "128 word \<Rightarrow> store \<Rightarrow> ShiftDetail list \<Rightarrow> EquipmentUsage list \<Rightarrow>
   ScheduleCreationResponse \<times> store \<times> query list" where
  "createSchedule random db shift_details equipment_usage =
     (case shift_loop db shift_details of
        (Some failed, qs) \<Rightarrow> (failed, db, qs)
      | (None, qs) \<Rightarrow>
          (case equipment_loop db equipment_usage of
             (Some failed, qs') \<Rightarrow> (failed, db, qs @ qs')
           | (None, qs') \<Rightarrow>
               (\<lparr>schedule_id = uuid_str (uuid4 random), shifts = shift_details,
                 used_equipment = equipment_usage, creation_status = ''Success''\<rparr>,
                db, qs @ qs')))"

section \<open>updateSchedule\<close>

record Shift_model =
  startTime :: int
  endTime :: int
  employeeId :: string
  equipmentId :: "string list"

record ScheduleUpdateResponse =
  success :: bool
  message :: string
  updatedSchedule :: Shift_model

text \<open>
  \<open>updatedSchedule: Shift\<close> is a required field that is not optional, so the validating
  constructor raises when it is given \<open>None\<close>.
\<close>

definition ScheduleUpdateResponse_init ::
  "bool \<Rightarrow> string \<Rightarrow> Shift_model option \<Rightarrow> error + ScheduleUpdateResponse" where
  "ScheduleUpdateResponse_init ok msg schedule =
     (case schedule of
        None \<Rightarrow> Inl (ValidationError ''updatedSchedule: none is not an allowed value'')
      | Some s \<Rightarrow>
          Inr \<lparr>ScheduleUpdateResponse.success = ok, message = msg, updatedSchedule = s\<rparr>)"

text \<open>
  \<open>Shift.prisma().update(where={"id": i}, data={"startTime": s, "endTime": e,
  "Equipment": {"connect": {"id": q}}})\<close>: the row with that key gets the new times and is
  connected to the equipment \<open>q\<close>. When the row or the equipment to connect does not
  exist, the client returns \<open>None\<close> and writes nothing.
\<close>

definition update_shift ::
  "store \<Rightarrow> string \<Rightarrow> int \<Rightarrow> int \<Rightarrow> string \<Rightarrow> (Shift_row \<times> store) option" where
  "update_shift db i s e q =
     (case find (\<lambda>r. Shift_row.id_key r = i) (Shift db) of
        None \<Rightarrow> None
      | Some row \<Rightarrow>
          if q \<in> set (store.Equipment db) then
            let row' = row\<lparr>Shift_row.startTime := s, Shift_row.endTime := e,
                           Shift_row.Equipment := List.insert q (Shift_row.Equipment row)\<rparr>
            in Some (row',
                 db\<lparr>Shift := map (\<lambda>r. if Shift_row.id_key r = i then row' else r) (Shift db)\<rparr>)
          else None)"

text \<open>
  \<open>updateSchedule\<close>. The parameter \<open>operationPlan\<close> is accepted and never read. No query
  for overlapping shifts or maintenance windows is sent.
\<close>

definition updateSchedule ::
  "store \<Rightarrow> string \<Rightarrow> int \<Rightarrow> int \<Rightarrow> string \<Rightarrow> string \<Rightarrow>
   (error + ScheduleUpdateResponse) \<times> store" where
  "updateSchedule db scheduleId shiftStartTime shiftEndTime equipment_id' operationPlan =
     (case find (\<lambda>r. Shift_row.id_key r = scheduleId) (Shift db) of
        None \<Rightarrow>
          (ScheduleUpdateResponse_init False (''No shift found with ID '' @ scheduleId) None, db)
      | Some shift_record \<Rightarrow>
          (case update_shift db scheduleId shiftStartTime shiftEndTime equipment_id' of
             None \<Rightarrow>
               (Inl (AttributeError ''NoneType object has no attribute startTime''), db)
           | Some (updated_shift, db') \<Rightarrow>
               (ScheduleUpdateResponse_init True ''Shift was successfully updated.''
                  (Some \<lparr>Shift_model.startTime = Shift_row.startTime updated_shift,
                         endTime = Shift_row.endTime updated_shift,
                         employeeId = Shift_row.employeeId updated_shift,
                         equipmentId = [equipment_id']\<rparr>), db')))"

section \<open>getCurrentMarketPrice\<close>

text \<open>
  What the outbound \<open>GET\<close> can bring back: \<open>client.get\<close> raises, or there is a response
  with a status code and a body. \<open>json_body\<close> is what \<open>resp.json()\<close> returns, \<open>None\<close>
  when it raises. A JSON object is the association list of its dictionary. A float is
  the real number it stands for.
\<close>

datatype json =
  JNull | JBool bool | JNumber real | JString string | JArray "json list"
  | JObject "(string \<times> json) list"

record httpx_Response =
  status_code :: nat
  json_body :: "json option"

datatype feed = RequestError | Got httpx_Response

record MarketPriceResponse =
  market_price :: real
  last_update :: int

text \<open>\<open>resp.raise_for_status()\<close> raises unless the status code is a 2xx.\<close>

definition is_success :: "httpx_Response \<Rightarrow> bool" where
  "is_success resp = (200 \<le> httpx_Response.status_code resp \<and> httpx_Response.status_code resp \<le> 299)"

text \<open>\<open>data[key]\<close>: defined on a dictionary that has the key, an exception otherwise.\<close>

fun subscript :: "json \<Rightarrow> string \<Rightarrow> json option" where
  "subscript (JObject kvs) key = map_of kvs key"
| "subscript _ key = None"

text \<open>
  \<open>float(v)\<close>: a number is itself, a boolean is 1.0 or 0.0, a string is parsed (the
  parser is the parameter \<open>float_of_str\<close>), anything else raises.
\<close>

fun py_float :: "(string \<Rightarrow> real option) \<Rightarrow> json \<Rightarrow> real option" where
  "py_float float_of_str (JNumber x) = Some x"
| "py_float float_of_str (JBool b) = Some (if b then 1 else 0)"
| "py_float float_of_str (JString s) = float_of_str s"
| "py_float float_of_str _ = None"

text \<open>
  \<open>datetime.fromisoformat(v)\<close>: a string is parsed (the parser is the parameter
  \<open>parse_iso\<close>), anything else raises.
\<close>

fun fromisoformat :: "(string \<Rightarrow> int option) \<Rightarrow> json \<Rightarrow> int option" where
  "fromisoformat parse_iso (JString s) = parse_iso s"
| "fromisoformat parse_iso _ = None"

text \<open>
  \<open>getCurrentMarketPrice\<close>. The two results are initialised before the \<open>try\<close>, each is
  assigned inside it, and \<open>except Exception\<close> ends the \<open>try\<close> block at the statement
  that raised: whatever was assigned before stays assigned.
\<close>

definition getCurrentMarketPrice ::
  "(string \<Rightarrow> real option) \<Rightarrow> (string \<Rightarrow> int option) \<Rightarrow> int \<Rightarrow> feed \<Rightarrow> MarketPriceResponse" where
  "getCurrentMarketPrice float_of_str parse_iso now fd =
     (let market_price0 = 0; last_update0 = now in
      case fd of
        RequestError \<Rightarrow> \<lparr>market_price = market_price0, last_update = last_update0\<rparr>
      | Got resp \<Rightarrow>
          if \<not> is_success resp
          then \<lparr>market_price = market_price0, last_update = last_update0\<rparr>
          else
            (case json_body resp of
               None \<Rightarrow> \<lparr>market_price = market_price0, last_update = last_update0\<rparr>
             | Some data \<Rightarrow>
                 (case Option.bind (subscript data ''market_price'') (py_float float_of_str) of
                    None \<Rightarrow> \<lparr>market_price = market_price0, last_update = last_update0\<rparr>
                  | Some market_price1 \<Rightarrow>
                      (case Option.bind (subscript data ''last_update'') (fromisoformat parse_iso) of
                         None \<Rightarrow> \<lparr>market_price = market_price1, last_update = last_update0\<rparr>
                       | Some last_update1 \<Rightarrow>
                           \<lparr>market_price = market_price1, last_update = last_update1\<rparr>))))"

section \<open>useSparePart in the words of the specification\<close>

text \<open>
  The specification describes \<open>useSparePart\<close> part by part. A part has \<open>enough\<close> stock
  when it exists and its quantity is at least the requested usage; \<open>consume\<close> decrements
  the quantity by the usage and appends one inventory log entry whose change amount is
  the usage negated; \<open>left_over\<close> is the quantity that remains. \<open>best_effort\<close> goes
  through the parts in input order, each against the store the parts before it left:
  a part with enough stock is consumed and listed with what is left over, any other part
  is skipped and makes the overall flag false. \<open>k\<close> counts the clock readings so far.
\<close>

definition enough :: "store \<Rightarrow> PartUsage \<Rightarrow> bool" where
  "enough db part =
     (case InventoryItem db (PartUsage.partId part) of
        None \<Rightarrow> False
      | Some row \<Rightarrow> quantityUsed part \<le> InventoryItem_row.quantity row)"

definition left_over :: "store \<Rightarrow> PartUsage \<Rightarrow> int" where
  "left_over db part =
     (case InventoryItem db (PartUsage.partId part) of
        None \<Rightarrow> 0
      | Some row \<Rightarrow> InventoryItem_row.quantity row - quantityUsed part)"

definition consume :: "int \<Rightarrow> store \<Rightarrow> PartUsage \<Rightarrow> store" where
  "consume t db part =
     db\<lparr>InventoryItem :=
          (case InventoryItem db (PartUsage.partId part) of
             None \<Rightarrow> InventoryItem db
           | Some row \<Rightarrow> (InventoryItem db)
               (PartUsage.partId part \<mapsto>
                  row\<lparr>InventoryItem_row.quantity := left_over db part\<rparr>)),
        InventoryLog := InventoryLog db @
          [\<lparr>changeAmount = - quantityUsed part, timestamp = t,
            inventoryItemId = PartUsage.partId part\<rparr>]\<rparr>"

fun best_effort ::
  "(nat \<Rightarrow> int) \<Rightarrow> nat \<Rightarrow> store \<Rightarrow> PartUsage list \<Rightarrow> store \<times> InventoryState list \<times> bool" where
  "best_effort now k db [] = (db, [], True)"
| "best_effort now k db (part # parts) =
     (if enough db part then
        (case best_effort now (Suc k) (consume (now k) db part) parts of
           (db', rest, ok) \<Rightarrow>
             (db', \<lparr>InventoryState.partId = PartUsage.partId part,
                    remainingQuantity = left_over db part\<rparr> # rest, ok))
      else
        (case best_effort now k db parts of (db', rest, ok) \<Rightarrow> (db', rest, False)))"

text \<open>
  The invariant of the inventory in the words of the specification: no item has a
  quantity below zero.
\<close>

definition nonneg :: "store \<Rightarrow> bool" where
  "nonneg db = (\<forall>i row. InventoryItem db i = Some row \<longrightarrow> 0 \<le> InventoryItem_row.quantity row)"

section \<open>An example store\<close>

text \<open>
  A small store on which the theorems below are exercised: two inventory items, two
  shifts of one employee, an open and a completed maintenance window, two machines.
\<close>

definition example_store :: store where
  "example_store =
     \<lparr>InventoryItem =
        [''A'' \<mapsto> \<lparr>name = ''oak board'', quantity = 5, itemType = PRODUCT\<rparr>,
         ''B'' \<mapsto> \<lparr>name = ''saw blade'', quantity = 1, itemType = RESOURCE\<rparr>],
      InventoryLog = [],
      SalesOrder = [],
      Shift =
        [\<lparr>Shift_row.id_key = ''s1'', startTime = 9, endTime = 17, employeeId = ''e1'',
          Equipment = []\<rparr>,
         \<lparr>Shift_row.id_key = ''s2'', startTime = 18, endTime = 20, employeeId = ''e1'',
          Equipment = []\<rparr>],
      MaintenanceLog =
        [\<lparr>MaintenanceLog_row.id_key = ''m1'', startTime = 10, endTime = 12,
          equipmentId = ''q1'', completionDate = None\<rparr>,
         \<lparr>MaintenanceLog_row.id_key = ''m2'', startTime = 10, endTime = 12,
          equipmentId = ''q2'', completionDate = Some 12\<rparr>],
      Equipment = [''q1'', ''q2'']\<rparr>"

section \<open>Properties of createOrder\<close>

lemma validate_items_find:
  "validate_items db items =
     (case find (insufficient db) items of
        None \<Rightarrow> Inr ()
      | Some item \<Rightarrow>
          Inl (ValueError (''Not enough stock for item ID '' @ OrderItem.inventoryItemId item)))"
  by (induction items) (auto simp: insufficient_def split: option.splits)

lemma decrement_items_SalesOrder [simp]:
  "SalesOrder (decrement_items db items) = SalesOrder db"
  by (induction items arbitrary: db) (auto simp: update_decrement_def split: option.splits)

text \<open>
  Claim C1. \<open>createOrder\<close> is all-or-nothing. If some line item is missing from the
  inventory or holds less than the requested amount, the call raises the error that names
  the first such item in input order and returns the store it was given: no quantity has
  changed and no order row exists that did not exist before. And whenever the call adds an
  order row, every line item's quantity on entry was at least the amount requested.
\<close>

theorem createOrder_all_or_nothing:
  "(find (insufficient db) items = Some bad \<longrightarrow>
      createOrder new_id db customer_id items =
        (Inl (ValueError (''Not enough stock for item ID '' @ OrderItem.inventoryItemId bad)), db))
   \<and> (SalesOrder (snd (createOrder new_id db customer_id items)) \<noteq> SalesOrder db \<longrightarrow>
        (\<forall>item \<in> set items. \<exists>row.
            InventoryItem db (OrderItem.inventoryItemId item) = Some row
          \<and> OrderItem.quantity item \<le> InventoryItem_row.quantity row))"
proof (intro conjI impI)
  assume "find (insufficient db) items = Some bad"
  then show "createOrder new_id db customer_id items =
      (Inl (ValueError (''Not enough stock for item ID '' @ OrderItem.inventoryItemId bad)), db)"
    by (simp add: createOrder_def validate_items_find)
next
  assume created: "SalesOrder (snd (createOrder new_id db customer_id items)) \<noteq> SalesOrder db"
  have "find (insufficient db) items = None"
  proof (cases "find (insufficient db) items")
    case (Some item)
    then have "snd (createOrder new_id db customer_id items) = db"
      by (simp add: createOrder_def validate_items_find)
    with created show ?thesis by simp
  qed simp
  then have "\<forall>item \<in> set items. \<not> insufficient db item"
    by (simp add: find_None_iff)
  then show "\<forall>item \<in> set items. \<exists>row.
      InventoryItem db (OrderItem.inventoryItemId item) = Some row
    \<and> OrderItem.quantity item \<le> InventoryItem_row.quantity row"
    by (auto simp: insufficient_def split: option.splits)
qed

theorem createOrder_all_or_nothing_witness:
  "createOrder ''o1'' example_store ''c1''
       [\<lparr>OrderItem.inventoryItemId = ''A'', quantity = 2\<rparr>,
        \<lparr>OrderItem.inventoryItemId = ''B'', quantity = 3\<rparr>,
        \<lparr>OrderItem.inventoryItemId = ''Z'', quantity = 1\<rparr>]
     = (Inl (ValueError ''Not enough stock for item ID B''), example_store)
   \<and> SalesOrder (snd (createOrder ''o1'' example_store ''c1''
          [\<lparr>OrderItem.inventoryItemId = ''A'', quantity = 2\<rparr>])) \<noteq> SalesOrder example_store
   \<and> (\<exists>row. InventoryItem example_store ''A'' = Some row
          \<and> 2 \<le> InventoryItem_row.quantity row)"
proof -
  let ?a = "\<lparr>OrderItem.inventoryItemId = ''A'', quantity = 2\<rparr>"
  let ?b = "\<lparr>OrderItem.inventoryItemId = ''B'', quantity = 3\<rparr>"
  let ?z = "\<lparr>OrderItem.inventoryItemId = ''Z'', quantity = 1\<rparr>"
  have short: "find (insufficient example_store) [?a, ?b, ?z] = Some ?b"
    by (simp add: insufficient_def example_store_def)
  have fails: "createOrder ''o1'' example_store ''c1'' [?a, ?b, ?z]
      = (Inl (ValueError ''Not enough stock for item ID B''), example_store)"
    using createOrder_all_or_nothing [of example_store "[?a, ?b, ?z]" ?b "''o1''" "''c1''"] short
    by simp
  have created: "SalesOrder (snd (createOrder ''o1'' example_store ''c1'' [?a]))
      \<noteq> SalesOrder example_store"
    by (simp add: createOrder_def update_decrement_def example_store_def)
  have "\<forall>item \<in> set [?a]. \<exists>row.
      InventoryItem example_store (OrderItem.inventoryItemId item) = Some row
    \<and> OrderItem.quantity item \<le> InventoryItem_row.quantity row"
    using createOrder_all_or_nothing [of example_store "[?a]" ?a "''o1''" "''c1''"] created
    by blast
  then have "\<exists>row. InventoryItem example_store ''A'' = Some row
      \<and> 2 \<le> InventoryItem_row.quantity row"
    by simp
  with fails created show ?thesis by blast
qed

section \<open>Properties of the HTTP handler of createOrder\<close>




section \<open>Properties of createSchedule\<close>

lemma shift_loop_find:
  "shift_loop db sd =
     (case find (\<lambda>s. overlap_shifts db s \<noteq> []) sd of
        None \<Rightarrow> (None, map Shift_find_many sd)
      | Some s \<Rightarrow>
          (Some \<lparr>schedule_id = '''', shifts = [], used_equipment = [],
                 creation_status = ''Failed due to shift conflict''\<rparr>,
           map Shift_find_many (takeWhile (\<lambda>s. overlap_shifts db s = []) sd @ [s])))"
  by (induction sd) (auto split: option.splits)

lemma equipment_loop_find:
  "equipment_loop db eu =
     (case find (\<lambda>e. overlap_equipment db e \<noteq> []) eu of
        None \<Rightarrow> (None, map MaintenanceLog_find_many eu)
      | Some e \<Rightarrow>
          (Some \<lparr>schedule_id = '''', shifts = [], used_equipment = [],
                 creation_status = ''Failed due to equipment maintenance conflict''\<rparr>,
           map MaintenanceLog_find_many (takeWhile (\<lambda>e. overlap_equipment db e = []) eu @ [e])))"
  by (induction eu) (auto split: option.splits)

lemma takeWhile_snoc_take:
  "find P xs = Some x \<Longrightarrow>
     takeWhile (\<lambda>y. \<not> P y) xs @ [x] = take (Suc (length (takeWhile (\<lambda>y. \<not> P y) xs))) xs"
  by (induction xs) (auto split: if_splits)

text \<open>
  Claim C2. \<open>createSchedule\<close> is two-phase and fail-fast. When some requested shift
  overlaps an existing shift of its employee, the call returns the shift-conflict failure
  (empty identifier, no shifts, no equipment) whatever the equipment usages are, the store
  is the store it was given, and the only queries sent are the shift queries up to and
  including the first conflicting shift, in input order. In every call the queries are a
  prefix of the shift queries followed by a prefix of the equipment queries, and an
  equipment query is sent only after every shift has been queried without conflict. The
  shift query returns only existing shifts of the same employee, the equipment query only
  open maintenance windows of the same equipment.
\<close>

theorem createSchedule_shift_conflict_first:
  "(find (\<lambda>s. overlap_shifts db s \<noteq> []) shift_details = Some s \<longrightarrow>
      createSchedule random db shift_details equipment_usage =
        (\<lparr>schedule_id = '''', shifts = [], used_equipment = [],
          creation_status = ''Failed due to shift conflict''\<rparr>,
         db,
         map Shift_find_many (takeWhile (\<lambda>s. overlap_shifts db s = []) shift_details @ [s])))
   \<and> (\<exists>n m. snd (snd (createSchedule random db shift_details equipment_usage)) =
            map Shift_find_many (take n shift_details)
            @ map MaintenanceLog_find_many (take m equipment_usage)
          \<and> (0 < m \<longrightarrow> n = length shift_details
                \<and> find (\<lambda>s. overlap_shifts db s \<noteq> []) shift_details = None))
   \<and> (\<forall>r \<in> set (overlap_shifts db s'). r \<in> set (Shift db) \<and> Shift_row.employeeId r = employee_id s')
   \<and> (\<forall>r \<in> set (overlap_equipment db e'). r \<in> set (MaintenanceLog db)
         \<and> MaintenanceLog_row.equipmentId r = equipment_id e' \<and> completionDate r = None)"
proof (intro conjI impI)
  assume "find (\<lambda>s. overlap_shifts db s \<noteq> []) shift_details = Some s"
  then show "createSchedule random db shift_details equipment_usage =
        (\<lparr>schedule_id = '''', shifts = [], used_equipment = [],
          creation_status = ''Failed due to shift conflict''\<rparr>,
         db,
         map Shift_find_many (takeWhile (\<lambda>s. overlap_shifts db s = []) shift_details @ [s]))"
    by (simp add: createSchedule_def shift_loop_find)
next
  let ?P = "\<lambda>s. overlap_shifts db s \<noteq> []"
  let ?Q = "\<lambda>e. overlap_equipment db e \<noteq> []"
  let ?trace = "snd (snd (createSchedule random db shift_details equipment_usage))"
  show "\<exists>n m. ?trace =
            map Shift_find_many (take n shift_details)
            @ map MaintenanceLog_find_many (take m equipment_usage)
          \<and> (0 < m \<longrightarrow> n = length shift_details \<and> find ?P shift_details = None)"
  proof (cases "find ?P shift_details")
    case (Some s0)
    then have "?trace = map Shift_find_many
        (take (Suc (length (takeWhile (\<lambda>y. \<not> ?P y) shift_details))) shift_details)
        @ map MaintenanceLog_find_many (take 0 equipment_usage)"
      using takeWhile_snoc_take [of ?P shift_details s0]
      by (simp add: createSchedule_def shift_loop_find)
    then show ?thesis by blast
  next
    case None
    show ?thesis
    proof (cases "find ?Q equipment_usage")
      case (Some e0)
      with None have "?trace = map Shift_find_many (take (length shift_details) shift_details)
          @ map MaintenanceLog_find_many
              (take (Suc (length (takeWhile (\<lambda>y. \<not> ?Q y) equipment_usage))) equipment_usage)"
        using takeWhile_snoc_take [of ?Q equipment_usage e0]
        by (simp add: createSchedule_def shift_loop_find equipment_loop_find)
      with None show ?thesis by blast
    next
      case None': None
      with None have "?trace = map Shift_find_many (take (length shift_details) shift_details)
          @ map MaintenanceLog_find_many (take (length equipment_usage) equipment_usage)"
        by (simp add: createSchedule_def shift_loop_find equipment_loop_find)
      with None show ?thesis by blast
    qed
  qed
next
  show "\<forall>r \<in> set (overlap_shifts db s'). r \<in> set (Shift db) \<and> Shift_row.employeeId r = employee_id s'"
    by (simp add: overlap_shifts_def)
next
  show "\<forall>r \<in> set (overlap_equipment db e'). r \<in> set (MaintenanceLog db)
      \<and> MaintenanceLog_row.equipmentId r = equipment_id e' \<and> completionDate r = None"
    by (simp add: overlap_equipment_def)
qed

theorem createSchedule_shift_conflict_first_witness:
  "createSchedule 0 example_store
       [\<lparr>ShiftDetail.start_time = 9, end_time = 17, employee_id = ''e2''\<rparr>,
        \<lparr>ShiftDetail.start_time = 10, end_time = 11, employee_id = ''e1''\<rparr>,
        \<lparr>ShiftDetail.start_time = 19, end_time = 21, employee_id = ''e1''\<rparr>]
       [\<lparr>equipment_id = ''q1'', start_time = 10, end_time = 11\<rparr>]
     = (\<lparr>schedule_id = '''', shifts = [], used_equipment = [],
         creation_status = ''Failed due to shift conflict''\<rparr>,
        example_store,
        [Shift_find_many \<lparr>ShiftDetail.start_time = 9, end_time = 17, employee_id = ''e2''\<rparr>,
         Shift_find_many \<lparr>ShiftDetail.start_time = 10, end_time = 11, employee_id = ''e1''\<rparr>])
   \<and> snd (snd (createSchedule 0 example_store
          [\<lparr>ShiftDetail.start_time = 9, end_time = 17, employee_id = ''e2''\<rparr>]
          [\<lparr>equipment_id = ''q2'', start_time = 10, end_time = 11\<rparr>,
           \<lparr>equipment_id = ''q1'', start_time = 10, end_time = 11\<rparr>]))
     = [Shift_find_many \<lparr>ShiftDetail.start_time = 9, end_time = 17, employee_id = ''e2''\<rparr>,
        MaintenanceLog_find_many \<lparr>equipment_id = ''q2'', start_time = 10, end_time = 11\<rparr>,
        MaintenanceLog_find_many \<lparr>equipment_id = ''q1'', start_time = 10, end_time = 11\<rparr>]
   \<and> overlap_shifts example_store
          \<lparr>ShiftDetail.start_time = 10, end_time = 11, employee_id = ''e1''\<rparr>
     = [\<lparr>Shift_row.id_key = ''s1'', startTime = 9, endTime = 17, employeeId = ''e1'',
         Equipment = []\<rparr>]"
proof -
  let ?s0 = "\<lparr>ShiftDetail.start_time = 9, end_time = 17, employee_id = ''e2''\<rparr>"
  let ?s1 = "\<lparr>ShiftDetail.start_time = 10, end_time = 11, employee_id = ''e1''\<rparr>"
  let ?s2 = "\<lparr>ShiftDetail.start_time = 19, end_time = 21, employee_id = ''e1''\<rparr>"
  let ?q1 = "\<lparr>equipment_id = ''q1'', start_time = 10, end_time = 11\<rparr>"
  have first: "find (\<lambda>s. overlap_shifts example_store s \<noteq> []) [?s0, ?s1, ?s2] = Some ?s1"
    by (simp add: overlap_shifts_def example_store_def)
  have prefix: "takeWhile (\<lambda>s. overlap_shifts example_store s = []) [?s0, ?s1, ?s2] = [?s0]"
    by (simp add: overlap_shifts_def example_store_def)
  have "createSchedule 0 example_store [?s0, ?s1, ?s2] [?q1]
     = (\<lparr>schedule_id = '''', shifts = [], used_equipment = [],
         creation_status = ''Failed due to shift conflict''\<rparr>,
        example_store, [Shift_find_many ?s0, Shift_find_many ?s1])"
    using createSchedule_shift_conflict_first
      [of example_store "[?s0, ?s1, ?s2]" ?s1 0 "[?q1]"] first prefix
    by simp
  moreover have "snd (snd (createSchedule 0 example_store [?s0]
          [\<lparr>equipment_id = ''q2'', start_time = 10, end_time = 11\<rparr>, ?q1]))
     = [Shift_find_many ?s0,
        MaintenanceLog_find_many \<lparr>equipment_id = ''q2'', start_time = 10, end_time = 11\<rparr>,
        MaintenanceLog_find_many ?q1]"
    by (simp add: createSchedule_def overlap_shifts_def overlap_equipment_def example_store_def)
  moreover have "overlap_shifts example_store ?s1
     = [\<lparr>Shift_row.id_key = ''s1'', startTime = 9, endTime = 17, employeeId = ''e1'',
         Equipment = []\<rparr>]"
    by (simp add: overlap_shifts_def example_store_def)
  ultimately show ?thesis by blast
qed

lemma length_hex_fixed [simp]: "length (hex_fixed n k) = n"
  by (induction n arbitrary: k) auto

lemma length_uuid_str: "length (uuid_str u) = 36"
  by (simp add: uuid_str_def Let_def)

lemma hex_fixed_numeral:
  "hex_fixed (numeral n) k = hex_fixed (pred_numeral n) (k div 16) @ [hexdigit (k mod 16)]"
  by (simp only: numeral_eq_Suc [of n] hex_fixed.simps)

text \<open>
  A generated UUID lies between 0 and \<open>2^128\<close>, and its text determines it: two draws
  whose identifiers read the same produced the same UUID.
\<close>

lemma uuid4_range: "0 \<le> uuid4 random \<and> uuid4 random < 2 ^ 128"
proof -
  let ?i0 = "uint random"
  let ?i1 = "?i0 AND NOT (push_bit 48 0xc000)"
  let ?i2 = "?i1 OR push_bit 48 0x8000"
  let ?i3 = "?i2 AND NOT (push_bit 64 0xf000)"
  have i0: "0 \<le> ?i0" "?i0 < 2 ^ 128"
    using uint_lt2p [of random] by simp_all
  have i1: "0 \<le> ?i1" "?i1 < 2 ^ 128"
    using i0 AND_upper1 [of ?i0 "NOT (push_bit 48 0xc000)"] by simp_all
  have i2: "0 \<le> ?i2" "?i2 < 2 ^ 128"
    using i1 OR_upper [of ?i1 128 "push_bit 48 0x8000"] by simp_all
  have i3: "0 \<le> ?i3" "?i3 < 2 ^ 128"
    using i2 AND_upper1 [of ?i2 "NOT (push_bit 64 0xf000)"] by simp_all
  have "0 \<le> ?i3 OR push_bit 76 4" "?i3 OR push_bit 76 4 < 2 ^ 128"
    using i3 OR_upper [of ?i3 128 "push_bit 76 4"] by simp_all
  then show ?thesis
    by (simp add: uuid4_def Let_def)
qed

lemma hexdigit_inj: "a < 16 \<Longrightarrow> b < 16 \<Longrightarrow> hexdigit a = hexdigit b \<Longrightarrow> a = b"
proof -
  assume "a < 16" "b < 16" "hexdigit a = hexdigit b"
  moreover have "distinct ''0123456789abcdef''" by simp
  ultimately show "a = b"
    by (simp add: hexdigit_def nth_eq_iff_index_eq)
qed

lemma hex_fixed_inj:
  "k < 16 ^ n \<Longrightarrow> k' < 16 ^ n \<Longrightarrow> hex_fixed n k = hex_fixed n k' \<Longrightarrow> k = k'"
proof (induction n arbitrary: k k')
  case 0
  then show ?case by simp
next
  case (Suc n)
  from Suc.prems(3) have eq: "hex_fixed n (k div 16) = hex_fixed n (k' div 16)"
    and dig: "hexdigit (k mod 16) = hexdigit (k' mod 16)"
    by simp_all
  have "k div 16 < 16 ^ n" "k' div 16 < 16 ^ n"
    using Suc.prems(1,2) by (simp_all add: less_mult_imp_div_less)
  with eq have "k div 16 = k' div 16"
    using Suc.IH [of "k div 16" "k' div 16"] by simp
  moreover from dig have "k mod 16 = k' mod 16"
    by (rule hexdigit_inj [rotated 2]) simp_all
  ultimately show ?case
    by (metis div_mult_mod_eq)
qed

lemma uuid_str_hex:
  assumes "uuid_str u = uuid_str v"
  shows "hex_fixed 32 (nat u) = hex_fixed 32 (nat v)"
proof -
  let ?h = "hex_fixed 32 (nat u)" and ?g = "hex_fixed 32 (nat v)"
  from assms have
    "take 8 ?h @ ''-'' @ take 4 (drop 8 ?h) @ ''-'' @ take 4 (drop 12 ?h) @ ''-''
       @ take 4 (drop 16 ?h) @ ''-'' @ drop 20 ?h
     = take 8 ?g @ ''-'' @ take 4 (drop 8 ?g) @ ''-'' @ take 4 (drop 12 ?g) @ ''-''
       @ take 4 (drop 16 ?g) @ ''-'' @ drop 20 ?g"
    by (simp add: uuid_str_def Let_def)
  then have parts: "take 8 ?h = take 8 ?g" "take 4 (drop 8 ?h) = take 4 (drop 8 ?g)"
    "take 4 (drop 12 ?h) = take 4 (drop 12 ?g)" "take 4 (drop 16 ?h) = take 4 (drop 16 ?g)"
    "drop 20 ?h = drop 20 ?g"
    by simp_all
  have split: "take 8 xs @ take 4 (drop 8 xs) @ take 4 (drop 12 xs)
      @ take 4 (drop 16 xs) @ drop 20 xs = xs" for xs :: string
  proof -
    have "take 4 (drop 16 xs) @ drop 20 xs = drop 16 xs"
      using append_take_drop_id [of 4 "drop 16 xs"] by simp
    moreover have "take 4 (drop 12 xs) @ drop 16 xs = drop 12 xs"
      using append_take_drop_id [of 4 "drop 12 xs"] by simp
    moreover have "take 4 (drop 8 xs) @ drop 12 xs = drop 8 xs"
      using append_take_drop_id [of 4 "drop 8 xs"] by simp
    ultimately show ?thesis by simp
  qed
  have "?h = take 8 ?h @ take 4 (drop 8 ?h) @ take 4 (drop 12 ?h)
      @ take 4 (drop 16 ?h) @ drop 20 ?h"
    by (simp only: split)
  also have "\<dots> = take 8 ?g @ take 4 (drop 8 ?g) @ take 4 (drop 12 ?g)
      @ take 4 (drop 16 ?g) @ drop 20 ?g"
    by (simp only: parts)
  also have "\<dots> = ?g"
    by (simp only: split)
  finally show ?thesis .
qed

lemma uuid_str_inj:
  "uuid_str (uuid4 r) = uuid_str (uuid4 r') \<Longrightarrow> uuid4 r = uuid4 r'"
proof -
  assume "uuid_str (uuid4 r) = uuid_str (uuid4 r')"
  then have "hex_fixed 32 (nat (uuid4 r)) = hex_fixed 32 (nat (uuid4 r'))"
    by (rule uuid_str_hex)
  moreover have "nat (uuid4 r) < 16 ^ 32" "nat (uuid4 r') < 16 ^ 32"
    using uuid4_range [of r] uuid4_range [of r'] by (simp_all add: nat_less_iff)
  ultimately have "nat (uuid4 r) = nat (uuid4 r')"
    by (rule hex_fixed_inj [rotated 2])
  then show ?thesis
    using uuid4_range [of r] uuid4_range [of r'] by (simp add: eq_nat_nat_iff)
qed

text \<open>
  Claim C9. When no requested shift overlaps an existing shift of its employee and no
  requested equipment usage overlaps an open maintenance window of its equipment,
  \<open>createSchedule\<close> returns status \<open>Success\<close>, the submitted shifts and equipment
  usages unchanged, and as identifier the text of the UUID generated for this call, which
  has 36 characters and so is not empty. The store is unchanged.
\<close>

theorem createSchedule_success:
  assumes "\<forall>shift \<in> set shift_details. overlap_shifts db shift = []"
    and "\<forall>equipment \<in> set equipment_usage. overlap_equipment db equipment = []"
  shows "createSchedule random db shift_details equipment_usage =
           (\<lparr>schedule_id = uuid_str (uuid4 random), shifts = shift_details,
             used_equipment = equipment_usage, creation_status = ''Success''\<rparr>,
            db,
            map Shift_find_many shift_details @ map MaintenanceLog_find_many equipment_usage)
       \<and> length (uuid_str (uuid4 random)) = 36
       \<and> uuid_str (uuid4 random) \<noteq> ''''"
proof -
  from assms(1) have "find (\<lambda>s. overlap_shifts db s \<noteq> []) shift_details = None"
    by (simp add: find_None_iff)
  moreover from assms(2)
  have "find (\<lambda>e. overlap_equipment db e \<noteq> []) equipment_usage = None"
    by (simp add: find_None_iff)
  ultimately have "createSchedule random db shift_details equipment_usage =
           (\<lparr>schedule_id = uuid_str (uuid4 random), shifts = shift_details,
             used_equipment = equipment_usage, creation_status = ''Success''\<rparr>,
            db,
            map Shift_find_many shift_details @ map MaintenanceLog_find_many equipment_usage)"
    by (simp add: createSchedule_def shift_loop_find equipment_loop_find)
  moreover have "length (uuid_str (uuid4 random)) = 36"
    by (rule length_uuid_str)
  moreover from this have "uuid_str (uuid4 random) \<noteq> ''''"
    by auto
  ultimately show ?thesis by blast
qed

theorem createSchedule_success_witness:
  "createSchedule 0 example_store
       [\<lparr>ShiftDetail.start_time = 9, end_time = 17, employee_id = ''e2''\<rparr>,
        \<lparr>ShiftDetail.start_time = 17, end_time = 18, employee_id = ''e1''\<rparr>]
       [\<lparr>equipment_id = ''q1'', start_time = 12, end_time = 14\<rparr>]
     = (\<lparr>schedule_id = ''00000000-0000-4000-8000-000000000000'',
         shifts = [\<lparr>ShiftDetail.start_time = 9, end_time = 17, employee_id = ''e2''\<rparr>,
                   \<lparr>ShiftDetail.start_time = 17, end_time = 18, employee_id = ''e1''\<rparr>],
         used_equipment = [\<lparr>equipment_id = ''q1'', start_time = 12, end_time = 14\<rparr>],
         creation_status = ''Success''\<rparr>,
        example_store,
        [Shift_find_many \<lparr>ShiftDetail.start_time = 9, end_time = 17, employee_id = ''e2''\<rparr>,
         Shift_find_many \<lparr>ShiftDetail.start_time = 17, end_time = 18, employee_id = ''e1''\<rparr>,
         MaintenanceLog_find_many \<lparr>equipment_id = ''q1'', start_time = 12, end_time = 14\<rparr>])"
proof -
  let ?sd = "[\<lparr>ShiftDetail.start_time = 9, end_time = 17, employee_id = ''e2''\<rparr>,
        \<lparr>ShiftDetail.start_time = 17, end_time = 18, employee_id = ''e1''\<rparr>]"
  let ?eu = "[\<lparr>equipment_id = ''q1'', start_time = 12, end_time = 14\<rparr>]"
  have free: "\<forall>shift \<in> set ?sd. overlap_shifts example_store shift = []"
    by (simp add: overlap_shifts_def example_store_def)
  have avail: "\<forall>equipment \<in> set ?eu. overlap_equipment example_store equipment = []"
    by (simp add: overlap_equipment_def example_store_def)
  have uuid: "uuid_str (uuid4 0) = ''00000000-0000-4000-8000-000000000000''"
    by (simp add: uuid_str_def uuid4_def hexdigit_def hex_fixed_numeral)
  show ?thesis
    using createSchedule_success [OF free avail, of 0] uuid by simp
qed

text \<open>
  Claim C6, as amended. A zero-length candidate (start equal to end, at instant \<open>t\<close>) is
  reported as conflicting exactly when some existing interval of the same subject strictly
  contains \<open>t\<close>: an existing shift of the employee, or an open maintenance window of the
  equipment, with start before \<open>t\<close> and end after \<open>t\<close>. An interval that the candidate only
  touches at an end point does not conflict.
\<close>

theorem zero_length_candidate_overlap:
  "(ShiftDetail.start_time shift = ShiftDetail.end_time shift \<longrightarrow>
      (overlap_shifts db shift \<noteq> []) =
        (\<exists>r \<in> set (Shift db). Shift_row.employeeId r = employee_id shift
           \<and> Shift_row.startTime r < ShiftDetail.start_time shift
           \<and> ShiftDetail.start_time shift < Shift_row.endTime r))
   \<and> (EquipmentUsage.start_time equipment = EquipmentUsage.end_time equipment \<longrightarrow>
      (overlap_equipment db equipment \<noteq> []) =
        (\<exists>r \<in> set (MaintenanceLog db). MaintenanceLog_row.equipmentId r = equipment_id equipment
           \<and> completionDate r = None
           \<and> MaintenanceLog_row.startTime r < EquipmentUsage.start_time equipment
           \<and> EquipmentUsage.start_time equipment < MaintenanceLog_row.endTime r))"
  by (auto simp: overlap_shifts_def overlap_equipment_def filter_empty_conv)

text \<open>
  The claim as stated fails: the zero-length candidate at 12 for employee \<open>e1\<close> overlaps
  the existing shift from 9 to 17, and \<open>createSchedule\<close> reports a shift conflict.
\<close>

theorem zero_length_candidate_counterexample:
  "ShiftDetail.start_time \<lparr>ShiftDetail.start_time = 12, end_time = 12, employee_id = ''e1''\<rparr>
     = ShiftDetail.end_time \<lparr>ShiftDetail.start_time = 12, end_time = 12, employee_id = ''e1''\<rparr>
   \<and> overlap_shifts example_store
        \<lparr>ShiftDetail.start_time = 12, end_time = 12, employee_id = ''e1''\<rparr>
       = [\<lparr>Shift_row.id_key = ''s1'', startTime = 9, endTime = 17, employeeId = ''e1'',
           Equipment = []\<rparr>]
   \<and> fst (createSchedule 0 example_store
        [\<lparr>ShiftDetail.start_time = 12, end_time = 12, employee_id = ''e1''\<rparr>] [])
       = \<lparr>schedule_id = '''', shifts = [], used_equipment = [],
          creation_status = ''Failed due to shift conflict''\<rparr>"
  by (simp add: createSchedule_def overlap_shifts_def example_store_def)

theorem zero_length_candidate_overlap_witness:
  "overlap_shifts example_store
        \<lparr>ShiftDetail.start_time = 12, end_time = 12, employee_id = ''e1''\<rparr> \<noteq> []
   \<and> overlap_shifts example_store
        \<lparr>ShiftDetail.start_time = 17, end_time = 17, employee_id = ''e1''\<rparr> = []
   \<and> overlap_equipment example_store
        \<lparr>equipment_id = ''q1'', start_time = 11, end_time = 11\<rparr> \<noteq> []
   \<and> overlap_equipment example_store
        \<lparr>equipment_id = ''q1'', start_time = 10, end_time = 10\<rparr> = []"
proof -
  let ?in = "\<lparr>ShiftDetail.start_time = 12, end_time = 12, employee_id = ''e1''\<rparr>"
  let ?edge = "\<lparr>ShiftDetail.start_time = 17, end_time = 17, employee_id = ''e1''\<rparr>"
  let ?qin = "\<lparr>equipment_id = ''q1'', start_time = 11, end_time = 11\<rparr>"
  let ?qedge = "\<lparr>equipment_id = ''q1'', start_time = 10, end_time = 10\<rparr>"
  have "overlap_shifts example_store ?in \<noteq> []"
    using zero_length_candidate_overlap [of ?in example_store ?qin]
    by (simp add: example_store_def)
  moreover have "overlap_shifts example_store ?edge = []"
    using zero_length_candidate_overlap [of ?edge example_store ?qin]
    by (simp add: example_store_def)
  moreover have "overlap_equipment example_store ?qin \<noteq> []"
    using zero_length_candidate_overlap [of ?in example_store ?qin]
    by (simp add: example_store_def)
  moreover have "overlap_equipment example_store ?qedge = []"
    using zero_length_candidate_overlap [of ?in example_store ?qedge]
    by (simp add: example_store_def)
  ultimately show ?thesis by blast
qed

section \<open>Properties of useSparePart\<close>

text \<open>The loop with its accumulators computes what the part-by-part description says.\<close>

lemma use_parts_best_effort:
  "use_parts now parts db remaining ok =
     (case best_effort now (length remaining) db parts of
        (db', rest, ok') \<Rightarrow> (db', remaining @ rest, ok \<and> ok'))"
proof (induction parts arbitrary: db remaining ok)
  case Nil
  then show ?case by simp
next
  case (Cons part parts)
  show ?case
  proof (cases "InventoryItem db (PartUsage.partId part)")
    case None
    then show ?thesis
      by (simp add: Cons.IH enough_def case_prod_beta)
  next
    case (Some row)
    then show ?thesis
      by (simp add: Cons.IH enough_def left_over_def consume_def Let_def case_prod_beta)
  qed
qed

lemma best_effort_MaintenanceLog:
  "MaintenanceLog (fst (best_effort now k db parts)) = MaintenanceLog db"
  by (induction parts arbitrary: k db) (auto simp: consume_def case_prod_beta)

lemma best_effort_length:
  "length (fst (snd (best_effort now k db parts))) \<le> length parts"
proof (induction parts arbitrary: k db)
  case Nil
  then show ?case by simp
next
  case (Cons part parts)
  show ?case
    using Cons.IH [of k db] Cons.IH [of "Suc k" "consume (now k) db part"]
    by (simp add: case_prod_beta)
qed

lemma best_effort_all:
  "snd (snd (best_effort now k db parts))
     = (length (fst (snd (best_effort now k db parts))) = length parts)"
proof (induction parts arbitrary: k db)
  case Nil
  then show ?case by simp
next
  case (Cons part parts)
  show ?case
  proof (cases "enough db part")
    case True
    then show ?thesis
      using Cons.IH [of "Suc k" "consume (now k) db part"]
      by (simp add: case_prod_beta)
  next
    case False
    then show ?thesis
      using best_effort_length [of now k db parts]
      by (auto simp: case_prod_beta)
  qed
qed

lemma best_effort_log:
  "\<exists>new. InventoryLog (fst (best_effort now k db parts)) = InventoryLog db @ new
     \<and> map InventoryLog_row.inventoryItemId new = map InventoryState.partId (fst (snd (best_effort now k db parts)))
     \<and> set new \<subseteq> (\<lambda>(j, p). \<lparr>changeAmount = - quantityUsed p, timestamp = now j,
                               inventoryItemId = PartUsage.partId p\<rparr>) ` (UNIV \<times> set parts)"
proof (induction parts arbitrary: k db)
  case Nil
  then show ?case by simp
next
  case (Cons part parts)
  show ?case
  proof (cases "enough db part")
    case True
    from Cons.IH [of "Suc k" "consume (now k) db part"]
    obtain new where new:
      "InventoryLog (fst (best_effort now (Suc k) (consume (now k) db part) parts))
         = InventoryLog (consume (now k) db part) @ new"
      "map InventoryLog_row.inventoryItemId new = map InventoryState.partId
         (fst (snd (best_effort now (Suc k) (consume (now k) db part) parts)))"
      "set new \<subseteq> (\<lambda>(j, p). \<lparr>changeAmount = - quantityUsed p, timestamp = now j,
                               inventoryItemId = PartUsage.partId p\<rparr>) ` (UNIV \<times> set parts)"
      by blast
    let ?e = "\<lparr>changeAmount = - quantityUsed part, timestamp = now k,
               inventoryItemId = PartUsage.partId part\<rparr>"
    have "InventoryLog (fst (best_effort now k db (part # parts))) = InventoryLog db @ (?e # new)"
      using True new(1) by (simp add: consume_def case_prod_beta)
    moreover have "map InventoryLog_row.inventoryItemId (?e # new)
        = map InventoryState.partId (fst (snd (best_effort now k db (part # parts))))"
      using True new(2) by (simp add: case_prod_beta)
    moreover have "set (?e # new) \<subseteq> (\<lambda>(j, p). \<lparr>changeAmount = - quantityUsed p, timestamp = now j,
                               inventoryItemId = PartUsage.partId p\<rparr>) ` (UNIV \<times> set (part # parts))"
      using new(3) by auto
    ultimately show ?thesis by blast
  next
    case False
    from Cons.IH [of k db] obtain new where new:
      "InventoryLog (fst (best_effort now k db parts)) = InventoryLog db @ new"
      "map InventoryLog_row.inventoryItemId new = map InventoryState.partId (fst (snd (best_effort now k db parts)))"
      "set new \<subseteq> (\<lambda>(j, p). \<lparr>changeAmount = - quantityUsed p, timestamp = now j,
                               inventoryItemId = PartUsage.partId p\<rparr>) ` (UNIV \<times> set parts)"
      by blast
    have "InventoryLog (fst (best_effort now k db (part # parts))) = InventoryLog db @ new"
      using False new(1) by (simp add: case_prod_beta)
    moreover have "map InventoryLog_row.inventoryItemId new
        = map InventoryState.partId (fst (snd (best_effort now k db (part # parts))))"
      using False new(2) by (simp add: case_prod_beta)
    moreover have "set new \<subseteq> (\<lambda>(j, p). \<lparr>changeAmount = - quantityUsed p, timestamp = now j,
                               inventoryItemId = PartUsage.partId p\<rparr>) ` (UNIV \<times> set (part # parts))"
      using new(3) by auto
    ultimately show ?thesis by blast
  qed
qed

text \<open>
  Claim C3, as amended. When the maintenance record exists, \<open>useSparePart\<close> processes the
  parts in input order, each against the inventory the parts before it left: a part that
  exists with quantity at least the requested usage has its quantity decremented by the
  usage and gets one inventory log entry whose change amount is the usage negated; any
  other part is skipped and processing continues. The response carries the record,
  \<open>remainingInventory\<close> lists exactly the decremented parts, in order, with what was left
  of each, and \<open>success\<close> is true exactly when every part has an entry there. The log
  after the call is the log before it followed by one entry per listed part, in the same
  order and for the same part.
\<close>

theorem useSparePart_best_effort:
  assumes "find_maintenance_record db record_id = Some maintenance_record"
  shows "useSparePart now db record_id parts =
           (Inr \<lparr>MaintenancePartsLogResponse.success = snd (snd (best_effort now 0 db parts)),
                 updatedRecord = maintenance_record,
                 remainingInventory = fst (snd (best_effort now 0 db parts))\<rparr>,
            fst (best_effort now 0 db parts))
       \<and> snd (snd (best_effort now 0 db parts))
           = (length (fst (snd (best_effort now 0 db parts))) = length parts)
       \<and> (\<exists>new. InventoryLog (fst (best_effort now 0 db parts)) = InventoryLog db @ new
             \<and> map InventoryLog_row.inventoryItemId new
                 = map InventoryState.partId (fst (snd (best_effort now 0 db parts)))
             \<and> (\<forall>e \<in> set new. \<exists>p \<in> set parts.
                   changeAmount e = - quantityUsed p
                 \<and> InventoryLog_row.inventoryItemId e = PartUsage.partId p))"
proof (intro conjI)
  have "find_maintenance_record (fst (best_effort now 0 db parts)) record_id
      = Some maintenance_record"
    using assms by (simp add: find_maintenance_record_def best_effort_MaintenanceLog)
  then show "useSparePart now db record_id parts =
           (Inr \<lparr>MaintenancePartsLogResponse.success = snd (snd (best_effort now 0 db parts)),
                 updatedRecord = maintenance_record,
                 remainingInventory = fst (snd (best_effort now 0 db parts))\<rparr>,
            fst (best_effort now 0 db parts))"
    using assms
    by (simp add: useSparePart_def use_parts_best_effort case_prod_beta
        MaintenancePartsLogResponse_init_def)
next
  show "snd (snd (best_effort now 0 db parts))
      = (length (fst (snd (best_effort now 0 db parts))) = length parts)"
    by (rule best_effort_all)
next
  from best_effort_log [of now 0 db parts] obtain new where new:
    "InventoryLog (fst (best_effort now 0 db parts)) = InventoryLog db @ new"
    "map InventoryLog_row.inventoryItemId new
       = map InventoryState.partId (fst (snd (best_effort now 0 db parts)))"
    "set new \<subseteq> (\<lambda>(j, p). \<lparr>changeAmount = - quantityUsed p, timestamp = now j,
                             inventoryItemId = PartUsage.partId p\<rparr>) ` (UNIV \<times> set parts)"
    by blast
  from new(3) have "\<forall>e \<in> set new. \<exists>p \<in> set parts.
      changeAmount e = - quantityUsed p \<and> InventoryLog_row.inventoryItemId e = PartUsage.partId p"
    by fastforce
  with new(1,2) show "\<exists>new. InventoryLog (fst (best_effort now 0 db parts)) = InventoryLog db @ new
      \<and> map InventoryLog_row.inventoryItemId new
          = map InventoryState.partId (fst (snd (best_effort now 0 db parts)))
      \<and> (\<forall>e \<in> set new. \<exists>p \<in> set parts.
            changeAmount e = - quantityUsed p
          \<and> InventoryLog_row.inventoryItemId e = PartUsage.partId p)"
    by blast
qed

text \<open>
  The claim as stated fails in two ways. With a record identifier that is not in the store
  no part is processed: item \<open>A\<close> has enough stock for a usage of 2, and its quantity stays
  5 and no log entry is written. And the change amount is the usage negated, which is
  negative only for a positive usage: a usage of 0 is logged with change amount 0, and a
  usage of -3 raises the quantity from 5 to 8 and is logged with change amount 3.
\<close>

theorem useSparePart_counterexample:
  "enough example_store \<lparr>PartUsage.partId = ''A'', quantityUsed = 2\<rparr>
   \<and> InventoryItem (snd (useSparePart (\<lambda>k. 0) example_store ''m9''
          [\<lparr>PartUsage.partId = ''A'', quantityUsed = 2\<rparr>])) ''A''
       = Some \<lparr>name = ''oak board'', quantity = 5, itemType = PRODUCT\<rparr>
   \<and> InventoryLog (snd (useSparePart (\<lambda>k. 0) example_store ''m9''
          [\<lparr>PartUsage.partId = ''A'', quantityUsed = 2\<rparr>])) = []
   \<and> InventoryLog (snd (useSparePart (\<lambda>k. 0) example_store ''m1''
          [\<lparr>PartUsage.partId = ''A'', quantityUsed = 0\<rparr>]))
       = [\<lparr>changeAmount = 0, timestamp = 0, inventoryItemId = ''A''\<rparr>]
   \<and> InventoryItem (snd (useSparePart (\<lambda>k. 0) example_store ''m1''
          [\<lparr>PartUsage.partId = ''A'', quantityUsed = - 3\<rparr>])) ''A''
       = Some \<lparr>name = ''oak board'', quantity = 8, itemType = PRODUCT\<rparr>
   \<and> InventoryLog (snd (useSparePart (\<lambda>k. 0) example_store ''m1''
          [\<lparr>PartUsage.partId = ''A'', quantityUsed = - 3\<rparr>]))
       = [\<lparr>changeAmount = 3, timestamp = 0, inventoryItemId = ''A''\<rparr>]"
  by (simp add: enough_def useSparePart_def find_maintenance_record_def
      MaintenancePartsLogResponse_init_def example_store_def)

theorem useSparePart_best_effort_witness:
  "useSparePart (\<lambda>k. 100 + int k) example_store ''m1''
       [\<lparr>PartUsage.partId = ''A'', quantityUsed = 2\<rparr>,
        \<lparr>PartUsage.partId = ''B'', quantityUsed = 3\<rparr>,
        \<lparr>PartUsage.partId = ''Z'', quantityUsed = 1\<rparr>,
        \<lparr>PartUsage.partId = ''A'', quantityUsed = 3\<rparr>,
        \<lparr>PartUsage.partId = ''A'', quantityUsed = 1\<rparr>]
     = (Inr \<lparr>MaintenancePartsLogResponse.success = False,
             updatedRecord = \<lparr>MaintenanceLog_row.id_key = ''m1'', startTime = 10, endTime = 12,
               equipmentId = ''q1'', completionDate = None\<rparr>,
             remainingInventory =
               [\<lparr>InventoryState.partId = ''A'', remainingQuantity = 3\<rparr>,
                \<lparr>InventoryState.partId = ''A'', remainingQuantity = 0\<rparr>]\<rparr>,
        example_store
          \<lparr>InventoryItem := (InventoryItem example_store)
             (''A'' \<mapsto> \<lparr>name = ''oak board'', quantity = 0, itemType = PRODUCT\<rparr>),
           InventoryLog :=
             [\<lparr>changeAmount = - 2, timestamp = 100, inventoryItemId = ''A''\<rparr>,
              \<lparr>changeAmount = - 3, timestamp = 101, inventoryItemId = ''A''\<rparr>]\<rparr>)"
proof -
  let ?parts = "[\<lparr>PartUsage.partId = ''A'', quantityUsed = 2\<rparr>,
        \<lparr>PartUsage.partId = ''B'', quantityUsed = 3\<rparr>,
        \<lparr>PartUsage.partId = ''Z'', quantityUsed = 1\<rparr>,
        \<lparr>PartUsage.partId = ''A'', quantityUsed = 3\<rparr>,
        \<lparr>PartUsage.partId = ''A'', quantityUsed = 1\<rparr>]"
  have found: "find_maintenance_record example_store ''m1''
      = Some \<lparr>MaintenanceLog_row.id_key = ''m1'', startTime = 10, endTime = 12,
               equipmentId = ''q1'', completionDate = None\<rparr>"
    by (simp add: find_maintenance_record_def example_store_def)
  have run: "best_effort (\<lambda>k. 100 + int k) 0 example_store ?parts
      = (example_store
          \<lparr>InventoryItem := (InventoryItem example_store)
             (''A'' \<mapsto> \<lparr>name = ''oak board'', quantity = 0, itemType = PRODUCT\<rparr>),
           InventoryLog :=
             [\<lparr>changeAmount = - 2, timestamp = 100, inventoryItemId = ''A''\<rparr>,
              \<lparr>changeAmount = - 3, timestamp = 101, inventoryItemId = ''A''\<rparr>]\<rparr>,
         [\<lparr>InventoryState.partId = ''A'', remainingQuantity = 3\<rparr>,
          \<lparr>InventoryState.partId = ''A'', remainingQuantity = 0\<rparr>],
         False)"
    by (simp add: enough_def left_over_def consume_def example_store_def)
  show ?thesis
    using useSparePart_best_effort [OF found, of "\<lambda>k. 100 + int k" ?parts] run
    by simp
qed

section \<open>Inventory quantities and the log under createOrder\<close>

text \<open>\<open>createOrder\<close> never writes to the inventory log.\<close>

lemma decrement_items_InventoryLog [simp]:
  "InventoryLog (decrement_items db items) = InventoryLog db"
  by (induction items arbitrary: db) (auto simp: update_decrement_def split: option.splits)

lemma createOrder_InventoryLog:
  "InventoryLog (snd (createOrder new_id db customer_id items)) = InventoryLog db"
  by (simp add: createOrder_def Let_def split: sum.splits)

text \<open>
  Where the invariant does hold: an order whose lines name pairwise different items keeps
  every quantity at or above zero, and so does every call of \<open>useSparePart\<close>, which reads
  the quantity again before each decrement.
\<close>

lemma update_decrement_nonneg:
  "nonneg db \<Longrightarrow> \<not> insufficient db item \<Longrightarrow>
   nonneg (update_decrement db (OrderItem.inventoryItemId item) (OrderItem.quantity item))"
  by (auto simp: nonneg_def update_decrement_def insufficient_def split: option.splits)

lemma update_decrement_other:
  "OrderItem.inventoryItemId other \<noteq> i \<Longrightarrow>
   insufficient (update_decrement db i n) other = insufficient db other"
  by (auto simp: update_decrement_def insufficient_def split: option.splits)

lemma decrement_items_nonneg:
  "nonneg db \<Longrightarrow> distinct (map OrderItem.inventoryItemId items) \<Longrightarrow>
   \<forall>item \<in> set items. \<not> insufficient db item \<Longrightarrow>
   nonneg (decrement_items db items)"
proof (induction items arbitrary: db)
  case Nil
  then show ?case by simp
next
  case (Cons item items)
  let ?db1 = "update_decrement db (OrderItem.inventoryItemId item) (OrderItem.quantity item)"
  have "nonneg ?db1"
    using Cons.prems by (simp add: update_decrement_nonneg)
  moreover have "distinct (map OrderItem.inventoryItemId items)"
    using Cons.prems by simp
  moreover have "\<forall>other \<in> set items. \<not> insufficient ?db1 other"
  proof
    fix other
    assume other: "other \<in> set items"
    then have "OrderItem.inventoryItemId other \<noteq> OrderItem.inventoryItemId item"
      using Cons.prems(2) by (metis distinct.simps(2) imageI list.simps(9) list.set_map)
    then show "\<not> insufficient ?db1 other"
      using Cons.prems(3) other by (simp add: update_decrement_other)
  qed
  ultimately show ?case
    using Cons.IH [of ?db1] by simp
qed

lemma createOrder_nonneg_distinct:
  assumes "nonneg db" and "distinct (map OrderItem.inventoryItemId items)"
  shows "nonneg (snd (createOrder new_id db customer_id items))"
proof (cases "find (insufficient db) items")
  case None
  then have "\<forall>item \<in> set items. \<not> insufficient db item"
    by (simp add: find_None_iff)
  with assms have "nonneg (decrement_items db items)"
    by (rule decrement_items_nonneg)
  with None show ?thesis
    by (simp add: createOrder_def validate_items_find Let_def nonneg_def)
next
  case (Some bad)
  with assms(1) show ?thesis
    by (simp add: createOrder_def validate_items_find)
qed

lemma best_effort_nonneg:
  "nonneg db \<Longrightarrow> nonneg (fst (best_effort now k db parts))"
proof (induction parts arbitrary: k db)
  case Nil
  then show ?case by simp
next
  case (Cons part parts)
  have "enough db part \<Longrightarrow> nonneg (consume (now k) db part)"
    using Cons.prems
    by (auto simp: nonneg_def consume_def enough_def left_over_def split: option.splits)
  then show ?case
    using Cons.IH [of "consume (now k) db part" "Suc k"] Cons.IH [of db k] Cons.prems
    by (simp add: case_prod_beta)
qed

lemma useSparePart_nonneg:
  "nonneg db \<Longrightarrow> nonneg (snd (useSparePart now db record_id parts))"
  by (simp add: useSparePart_def use_parts_best_effort case_prod_beta best_effort_nonneg
      split: option.splits)

text \<open>
  Claim C4. The invariant does not hold on the code. The validation loop of
  \<open>createOrder\<close> compares every line with the quantity on entry, so two lines for item
  \<open>A\<close> of 3 each pass against a stock of 5; the commit loop then decrements twice, the
  order is created and the quantity of \<open>A\<close> is -1.
\<close>

theorem createOrder_duplicate_lines_oversell:
  "createOrder ''o1'' example_store ''c1''
       [\<lparr>OrderItem.inventoryItemId = ''A'', quantity = 3\<rparr>,
        \<lparr>OrderItem.inventoryItemId = ''A'', quantity = 3\<rparr>]
     = (Inr \<lparr>orderId = ''o1''\<rparr>,
        example_store
          \<lparr>InventoryItem := (InventoryItem example_store)
             (''A'' \<mapsto> \<lparr>name = ''oak board'', quantity = - 1, itemType = PRODUCT\<rparr>),
           SalesOrder :=
             [\<lparr>SalesOrder_row.id_key = ''o1'', customerId = ''c1'', status = ''PENDING''\<rparr>]\<rparr>)"
  by (simp add: createOrder_def update_decrement_def example_store_def)

text \<open>
  Claim C7. \<open>createOrder\<close> changes a quantity without an inventory log entry: an order
  of 2 of item \<open>A\<close> takes its quantity from 5 to 3 and the log stays empty, where
  \<open>useSparePart\<close> for the same item and amount appends the entry with change amount -2.
\<close>

theorem createOrder_writes_no_log:
  "InventoryItem (snd (createOrder ''o1'' example_store ''c1''
       [\<lparr>OrderItem.inventoryItemId = ''A'', quantity = 2\<rparr>])) ''A''
     = Some \<lparr>name = ''oak board'', quantity = 3, itemType = PRODUCT\<rparr>
   \<and> InventoryLog (snd (createOrder ''o1'' example_store ''c1''
       [\<lparr>OrderItem.inventoryItemId = ''A'', quantity = 2\<rparr>])) = []
   \<and> InventoryLog (snd (useSparePart (\<lambda>k. 0) example_store ''m1''
       [\<lparr>PartUsage.partId = ''A'', quantityUsed = 2\<rparr>]))
     = [\<lparr>changeAmount = - 2, timestamp = 0, inventoryItemId = ''A''\<rparr>]"
  by (simp add: createOrder_def update_decrement_def useSparePart_def
      find_maintenance_record_def example_store_def)

section \<open>Properties of updateSchedule\<close>

text \<open>
  An unknown identifier changes nothing, and the call ends in an exception: the failure
  response is built with \<open>updatedSchedule=None\<close>, which the response class rejects.
\<close>

lemma updateSchedule_unknown_id:
  "find (\<lambda>r. Shift_row.id_key r = scheduleId) (Shift db) = None \<Longrightarrow>
   snd (updateSchedule db scheduleId s e q plan) = db
   \<and> (\<exists>err. fst (updateSchedule db scheduleId s e q plan) = Inl err)"
  by (simp add: updateSchedule_def ScheduleUpdateResponse_init_def)

text \<open>
  Claim C8. \<open>updateSchedule\<close> runs no conflict check. Moving shift \<open>s2\<close> of employee
  \<open>e1\<close> to 10-12 on machine \<open>q1\<close> overlaps the employee's shift \<open>s1\<close> (9-17) and the
  open maintenance window of \<open>q1\<close> (10-12), both of which the queries of
  \<open>createSchedule\<close> find; \<open>updateSchedule\<close> reports success and stores the new times.
\<close>

theorem updateSchedule_no_conflict_check:
  "overlap_shifts example_store
       \<lparr>ShiftDetail.start_time = 10, end_time = 12, employee_id = ''e1''\<rparr>
     = [\<lparr>Shift_row.id_key = ''s1'', startTime = 9, endTime = 17, employeeId = ''e1'',
         Equipment = []\<rparr>]
   \<and> overlap_equipment example_store
       \<lparr>equipment_id = ''q1'', start_time = 10, end_time = 12\<rparr>
     = [\<lparr>MaintenanceLog_row.id_key = ''m1'', startTime = 10, endTime = 12,
         equipmentId = ''q1'', completionDate = None\<rparr>]
   \<and> updateSchedule example_store ''s2'' 10 12 ''q1'' ''resaw oak''
     = (Inr \<lparr>ScheduleUpdateResponse.success = True,
             message = ''Shift was successfully updated.'',
             updatedSchedule = \<lparr>Shift_model.startTime = 10, endTime = 12,
               employeeId = ''e1'', equipmentId = [''q1'']\<rparr>\<rparr>,
        example_store
          \<lparr>Shift :=
             [\<lparr>Shift_row.id_key = ''s1'', startTime = 9, endTime = 17, employeeId = ''e1'',
               Equipment = []\<rparr>,
              \<lparr>Shift_row.id_key = ''s2'', startTime = 10, endTime = 12, employeeId = ''e1'',
               Equipment = [''q1'']\<rparr>]\<rparr>)"
  by (simp add: overlap_shifts_def overlap_equipment_def updateSchedule_def update_shift_def
      ScheduleUpdateResponse_init_def example_store_def Let_def)

section \<open>Properties of getCurrentMarketPrice\<close>

text \<open>
  When the request fails, the status is not a 2xx, the body is not JSON or the price
  cannot be read from it, the result is the zero price with the current time.
\<close>

lemma getCurrentMarketPrice_degrades:
  "fd = RequestError
   \<or> (\<exists>resp. fd = Got resp \<and>
         (\<not> is_success resp \<or> json_body resp = None
          \<or> (\<exists>data. json_body resp = Some data
                \<and> Option.bind (subscript data ''market_price'') (py_float float_of_str) = None)))
   \<Longrightarrow> getCurrentMarketPrice float_of_str parse_iso now fd
         = \<lparr>market_price = 0, last_update = now\<rparr>"
  by (auto simp: getCurrentMarketPrice_def)

text \<open>
  When the price has been read and reading the time of the last update raises, the price
  read stays in the result.
\<close>

lemma getCurrentMarketPrice_partial:
  "is_success resp \<Longrightarrow> json_body resp = Some data \<Longrightarrow>
   Option.bind (subscript data ''market_price'') (py_float float_of_str) = Some price \<Longrightarrow>
   Option.bind (subscript data ''last_update'') (fromisoformat parse_iso) = None \<Longrightarrow>
   getCurrentMarketPrice float_of_str parse_iso now (Got resp)
     = \<lparr>market_price = price, last_update = now\<rparr>"
  by (simp add: getCurrentMarketPrice_def)

text \<open>
  Claim C10. The degraded result is not always the zero price. A 200 response whose body
  has \<open>market_price\<close> 12.5 and a \<open>last_update\<close> that is \<open>null\<close>, or no \<open>last_update\<close>
  at all, makes \<open>datetime.fromisoformat\<close> or the subscript raise after the price was
  assigned: the result is the price 12.5 with the current time, whatever the two parsers
  are.
\<close>

theorem getCurrentMarketPrice_keeps_parsed_price:
  "getCurrentMarketPrice float_of_str parse_iso 1000
       (Got \<lparr>httpx_Response.status_code = 200,
             json_body = Some (JObject [(''market_price'', JNumber 12.5),
                                        (''last_update'', JNull)])\<rparr>)
     = \<lparr>market_price = 12.5, last_update = 1000\<rparr>
   \<and> getCurrentMarketPrice float_of_str parse_iso 1000
       (Got \<lparr>httpx_Response.status_code = 200,
             json_body = Some (JObject [(''market_price'', JNumber 12.5)])\<rparr>)
     = \<lparr>market_price = 12.5, last_update = 1000\<rparr>
   \<and> market_price (getCurrentMarketPrice float_of_str parse_iso 1000
       (Got \<lparr>httpx_Response.status_code = 200,
             json_body = Some (JObject [(''market_price'', JNumber 12.5)])\<rparr>)) \<noteq> 0"
  by (simp add: getCurrentMarketPrice_def is_success_def)

end
